theory Spec2Isabelle
  imports Complex_Main
begin

section \<open>The OP-stack action \<open>getWithdrawalStatus\<close>\<close>

text \<open>
  A shallow embedding of \<^verbatim>\<open>src/chains/opStack/actions/getWithdrawalStatus.ts\<close>.
  The action resolves the portal address, extracts the withdrawals of a receipt, starts four
  asynchronous reads, waits until all four have settled (\<^verbatim>\<open>Promise.allSettled\<close>) and maps
  the four settled results to a status string or to a thrown error.
\<close>

subsection \<open>JavaScript values\<close>

text \<open>The values a decoded revert argument can hold (\<^verbatim>\<open>unknown[]\<close> in the source).\<close>

datatype jsvalue =
    JSUndefined
  | JSNull
  | JSBoolean bool
  | JSBigInt int
  | JSString string

text \<open>
  \<^verbatim>\<open>v === 'literal'\<close>: strict equality with a string literal holds for a string of the same
  characters and for nothing else.
\<close>

fun strict_eq_string :: "jsvalue \<Rightarrow> string \<Rightarrow> bool" where
  "strict_eq_string (JSString t) s = (t = s)"
| "strict_eq_string _ s = False"

text \<open>
  A JavaScript \<^verbatim>\<open>number\<close>: every finite double is a real number; the three other values are
  kept apart because comparisons treat them differently.
\<close>

datatype number = Finite real | PosInfinity | NegInfinity | NaN

text \<open>\<^verbatim>\<open>n > 0\<close> and \<^verbatim>\<open>n <= 0\<close> on a number; both are false on \<^verbatim>\<open>NaN\<close>.\<close>

fun greater_zero :: "number \<Rightarrow> bool" where
  "greater_zero (Finite r) = (0 < r)"
| "greater_zero PosInfinity = True"
| "greater_zero NegInfinity = False"
| "greater_zero NaN = False"

fun less_eq_zero :: "number \<Rightarrow> bool" where
  "less_eq_zero (Finite r) = (r \<le> 0)"
| "less_eq_zero PosInfinity = False"
| "less_eq_zero NegInfinity = True"
| "less_eq_zero NaN = False"

subsection \<open>Errors\<close>

text \<open>
  \<^verbatim>\<open>ContractFunctionRevertedError\<close> has an optional \<^verbatim>\<open>data\<close> with an optional list
  \<^verbatim>\<open>args\<close>; nothing else of it is read.
\<close>

record DecodedErrorResult =
  errorName :: string
  args :: "jsvalue list option"

text \<open>
  What \<^verbatim>\<open>error.cause\<close> can be: \<^verbatim>\<open>undefined\<close>, an instance of
  \<^verbatim>\<open>ContractFunctionRevertedError\<close>, or any other value (named by a string).
\<close>

datatype cause =
    NoCause
  | ContractFunctionRevertedError "DecodedErrorResult option"
  | OtherCause string

text \<open>
  The error objects this action throws: the two it raises itself (the \<^verbatim>\<open>TypeError\<close> of a
  property read on \<^verbatim>\<open>undefined\<close> during address resolution, and
  \<^verbatim>\<open>ReceiptContainsNoWithdrawalsError\<close> with the receipt's transaction hash), and the error
  objects of its collaborators, of which the action reads only \<^verbatim>\<open>cause\<close>. The source
  types a rejection reason as an error object (\<^verbatim>\<open>outputResult.reason as GetL2OutputErrorType\<close>),
  and so does the model.
\<close>

datatype error =
    TypeError
  | ReceiptContainsNoWithdrawalsError string
  | CollaboratorError string cause

fun cause_of :: "error \<Rightarrow> cause" where
  "cause_of (CollaboratorError n c) = c"
| "cause_of _ = NoCause"

text \<open>\<^verbatim>\<open>cause instanceof ContractFunctionRevertedError\<close>\<close>

fun instanceof_ContractFunctionRevertedError :: "cause \<Rightarrow> bool" where
  "instanceof_ContractFunctionRevertedError (ContractFunctionRevertedError d) = True"
| "instanceof_ContractFunctionRevertedError _ = False"

text \<open>
  \<^verbatim>\<open>cause.data?.args?.[0]\<close>: \<^verbatim>\<open>undefined\<close> when \<^verbatim>\<open>data\<close> or \<^verbatim>\<open>args\<close> is
  missing or \<^verbatim>\<open>args\<close> is empty, the first argument otherwise. On a cause that is no
  \<^verbatim>\<open>ContractFunctionRevertedError\<close> the source does not evaluate it (\<^verbatim>\<open>&&\<close>).
\<close>

fun data_args_0 :: "cause \<Rightarrow> jsvalue" where
  "data_args_0 (ContractFunctionRevertedError None) = JSUndefined"
| "data_args_0 (ContractFunctionRevertedError (Some d)) =
     (case args d of
        None \<Rightarrow> JSUndefined
      | Some [] \<Rightarrow> JSUndefined
      | Some (a # _) \<Rightarrow> a)"
| "data_args_0 _ = JSUndefined"

definition not_proposed_message :: string where
  "not_proposed_message =
     ''L2OutputOracle: cannot get output for a block that has not been proposed''"

subsection \<open>Parameters, receipts and withdrawals\<close>

record Chain =
  chain_id :: int

record ChainContract =
  address :: string

text \<open>
  \<^verbatim>\<open>targetChain.contracts.portal\<close> is an object from source chain ids to contracts; the
  list holds its entries in the order \<^verbatim>\<open>Object.values\<close> enumerates them.
\<close>

record Contracts =
  portal :: "(int \<times> ChainContract) list"

record TargetChain =
  contracts :: Contracts

record TransactionReceipt =
  transactionHash :: string
  blockNumber :: int
  logs :: "string list"

text \<open>Of a withdrawal the action reads \<^verbatim>\<open>withdrawalHash\<close> only.\<close>

record Withdrawal =
  withdrawalHash :: string
  other_fields :: string

record Client =
  chain :: "Chain option"
  transport :: string

record GetWithdrawalStatusParameters =
  chain_override :: "Chain option"
  portalAddress :: "string option"
  l2OutputOracleAddress :: "string option"
  targetChain :: "TargetChain option"
  receipt :: TransactionReceipt

subsection \<open>Collaborators and settled promises\<close>

text \<open>An element of the array \<^verbatim>\<open>Promise.allSettled\<close> resolves to.\<close>

datatype 'a settled = Fulfilled 'a | Rejected error

datatype L2Output = L2Output string

record TimeToFinalize =
  seconds :: number

text \<open>
  The functions the action imports and calls. \<^verbatim>\<open>getWithdrawals\<close> is synchronous: it
  returns the list or throws. The other three are asynchronous: each call gives a promise, of
  which the model keeps the settled result. \<^verbatim>\<open>readContract\<close> is called for two functions
  of the portal, with results of different types, so it has one field for each.
\<close>

record Collaborators =
  getWithdrawals :: "TransactionReceipt \<Rightarrow> error + Withdrawal list"
  getL2Output :: "Client \<Rightarrow> GetWithdrawalStatusParameters \<Rightarrow> int \<Rightarrow> L2Output settled"
  readContract_provenWithdrawals ::
    "Client \<Rightarrow> string \<Rightarrow> string list \<Rightarrow> (string \<times> int \<times> int) settled"
  readContract_finalizedWithdrawals ::
    "Client \<Rightarrow> string \<Rightarrow> string list \<Rightarrow> bool settled"
  getTimeToFinalize :: "Client \<Rightarrow> GetWithdrawalStatusParameters \<Rightarrow> string \<Rightarrow> TimeToFinalize settled"

text \<open>The asynchronous calls the action starts, with their arguments, in the order of the array.\<close>

datatype call =
    Call_getL2Output Client GetWithdrawalStatusParameters int
  | Call_readContract Client string string "string list"
  | Call_getTimeToFinalize Client GetWithdrawalStatusParameters string

subsection \<open>The action\<close>

text \<open>The five string literals of \<^verbatim>\<open>GetWithdrawalStatusReturnType\<close>.\<close>

definition GetWithdrawalStatusReturnType :: "string set" where
  "GetWithdrawalStatusReturnType =
     {''waiting-to-prove'', ''ready-to-prove'', ''waiting-to-finalize'',
      ''ready-to-finalize'', ''finalized''}"

text \<open>
  Lines 88 to 94. \<^verbatim>\<open>chain\<close> defaults to \<^verbatim>\<open>client.chain\<close>. A portal address in the
  parameters wins when it is truthy (a non-empty string). Otherwise the address is read from
  \<^verbatim>\<open>targetChain\<close>: under the chain's id when there is a chain, from the first entry when
  there is none. Reading a property of \<^verbatim>\<open>undefined\<close> (no target chain, no entry) throws
  a \<^verbatim>\<open>TypeError\<close>.
\<close>

definition targetChain_portal_address ::
  "Chain option \<Rightarrow> TargetChain option \<Rightarrow> error + string" where
  "targetChain_portal_address chain' targetChain' =
     (case chain' of
        Some c \<Rightarrow>
          (case targetChain' of
             None \<Rightarrow> Inl TypeError
           | Some t \<Rightarrow>
               (case map_of (portal (contracts t)) (chain_id c) of
                  None \<Rightarrow> Inl TypeError
                | Some cc \<Rightarrow> Inr (address cc)))
      | None \<Rightarrow>
          (case targetChain' of
             None \<Rightarrow> Inl TypeError
           | Some t \<Rightarrow>
               (case map snd (portal (contracts t)) of
                  [] \<Rightarrow> Inl TypeError
                | cc # _ \<Rightarrow> Inr (address cc))))"

definition resolve_portalAddress :: "Client \<Rightarrow> GetWithdrawalStatusParameters \<Rightarrow> error + string" where
  "resolve_portalAddress client parameters =
     (let chain' = (case chain_override parameters of None \<Rightarrow> chain client | Some c \<Rightarrow> Some c) in
      case portalAddress parameters of
        Some a \<Rightarrow>
          if a \<noteq> [] then Inr a
          else targetChain_portal_address chain' (targetChain parameters)
      | None \<Rightarrow> targetChain_portal_address chain' (targetChain parameters))"

text \<open>
  Lines 129 to 151: the decision on the four settled results, in the order of the source.
  A rejected \<^verbatim>\<open>getL2Output\<close> whose cause is a \<^verbatim>\<open>ContractFunctionRevertedError\<close> with
  the oracle's message as first argument gives \<^verbatim>\<open>'waiting-to-prove'\<close>; any other
  rejection is thrown, that of \<^verbatim>\<open>getL2Output\<close> first, then \<^verbatim>\<open>provenWithdrawals\<close>,
  \<^verbatim>\<open>finalizedWithdrawals\<close>, \<^verbatim>\<open>getTimeToFinalize\<close>. \<^verbatim>\<open>!proveTimestamp\<close> holds of
  the bigint \<^verbatim>\<open>0n\<close> only.
\<close>

definition status_of_settled ::
  "L2Output settled \<Rightarrow> (string \<times> int \<times> int) settled \<Rightarrow> bool settled \<Rightarrow> TimeToFinalize settled
     \<Rightarrow> error + string" where
  "status_of_settled outputResult proveResult finalizedResult timeToFinalizeResult =
     (case outputResult of
        Rejected err \<Rightarrow>
          if instanceof_ContractFunctionRevertedError (cause_of err) \<and>
             strict_eq_string (data_args_0 (cause_of err)) not_proposed_message
          then Inr ''waiting-to-prove''
          else Inl err
      | Fulfilled output \<Rightarrow>
          (case proveResult of
             Rejected reason \<Rightarrow> Inl reason
           | Fulfilled (outputRoot, proveTimestamp, l2OutputIndex) \<Rightarrow>
               (case finalizedResult of
                  Rejected reason \<Rightarrow> Inl reason
                | Fulfilled finalized \<Rightarrow>
                    (case timeToFinalizeResult of
                       Rejected reason \<Rightarrow> Inl reason
                     | Fulfilled timeToFinalize \<Rightarrow>
                         if proveTimestamp = 0 then Inr ''ready-to-prove''
                         else if finalized then Inr ''finalized''
                         else if greater_zero (seconds timeToFinalize)
                           then Inr ''waiting-to-finalize''
                           else Inr ''ready-to-finalize''))))"

text \<open>
  The four calls of lines 105 to 124 for a portal address and a withdrawal, in array order.
\<close>

definition issued_calls ::
  "Client \<Rightarrow> GetWithdrawalStatusParameters \<Rightarrow> string \<Rightarrow> Withdrawal \<Rightarrow> call list" where
  "issued_calls client parameters portalAddress' withdrawal =
     [Call_getL2Output client parameters (blockNumber (receipt parameters)),
      Call_readContract client portalAddress' ''provenWithdrawals'' [withdrawalHash withdrawal],
      Call_readContract client portalAddress' ''finalizedWithdrawals'' [withdrawalHash withdrawal],
      Call_getTimeToFinalize client parameters (withdrawalHash withdrawal)]"

text \<open>
  The action. Its value is what it returns or throws, together with the asynchronous calls
  it has started. The address is resolved first, then the withdrawals are extracted; an
  empty list (\<^verbatim>\<open>withdrawal\<close> is \<^verbatim>\<open>undefined\<close>) throws before any call is started.
  Otherwise all four calls are started and awaited together, and the decision is taken on
  the four settled results.
\<close>

definition getWithdrawalStatus ::
  "Collaborators \<Rightarrow> Client \<Rightarrow> GetWithdrawalStatusParameters \<Rightarrow> (error + string) \<times> call list" where
  "getWithdrawalStatus env client parameters =
     (case resolve_portalAddress client parameters of
        Inl e \<Rightarrow> (Inl e, [])
      | Inr portalAddress' \<Rightarrow>
          (case getWithdrawals env (receipt parameters) of
             Inl e \<Rightarrow> (Inl e, [])
           | Inr [] \<Rightarrow>
               (Inl (ReceiptContainsNoWithdrawalsError (transactionHash (receipt parameters))), [])
           | Inr (withdrawal # _) \<Rightarrow>
               (let outputResult =
                      getL2Output env client parameters (blockNumber (receipt parameters));
                    proveResult =
                      readContract_provenWithdrawals env client portalAddress'
                        [withdrawalHash withdrawal];
                    finalizedResult =
                      readContract_finalizedWithdrawals env client portalAddress'
                        [withdrawalHash withdrawal];
                    timeToFinalizeResult =
                      getTimeToFinalize env client parameters (withdrawalHash withdrawal)
                in (status_of_settled outputResult proveResult finalizedResult timeToFinalizeResult,
                    issued_calls client parameters portalAddress' withdrawal))))"

subsection \<open>Stubbed collaborators and sample inputs\<close>

text \<open>
  Collaborators that answer every call with a fixed, pre-seeded result, and a client,
  parameters, a receipt, a withdrawal and two rejection reasons to run the action on.
\<close>

definition stub_collaborators ::
  "Withdrawal list \<Rightarrow> L2Output settled \<Rightarrow> (string \<times> int \<times> int) settled \<Rightarrow> bool settled
     \<Rightarrow> TimeToFinalize settled \<Rightarrow> Collaborators" where
  "stub_collaborators ws q1 q2 q3 q4 =
     \<lparr>getWithdrawals = (\<lambda>r. Inr ws),
      getL2Output = (\<lambda>c p n. q1),
      readContract_provenWithdrawals = (\<lambda>c a hs. q2),
      readContract_finalizedWithdrawals = (\<lambda>c a hs. q3),
      getTimeToFinalize = (\<lambda>c p h. q4)\<rparr>"

definition example_client :: Client where
  "example_client = \<lparr>chain = Some \<lparr>chain_id = 1\<rparr>, transport = ''http''\<rparr>"

definition example_receipt :: TransactionReceipt where
  "example_receipt = \<lparr>transactionHash = ''0xa1'', blockNumber = 100, logs = []\<rparr>"

definition example_parameters :: GetWithdrawalStatusParameters where
  "example_parameters =
     \<lparr>chain_override = None, portalAddress = None, l2OutputOracleAddress = None,
      targetChain = Some \<lparr>contracts = \<lparr>portal = [(1, \<lparr>address = ''0xbe''\<rparr>)]\<rparr>\<rparr>,
      receipt = example_receipt\<rparr>"

definition example_withdrawal :: Withdrawal where
  "example_withdrawal = \<lparr>withdrawalHash = ''0x01'', other_fields = ''0x''\<rparr>"

definition not_proposed_error :: error where
  "not_proposed_error =
     CollaboratorError ''ContractFunctionExecutionError''
       (ContractFunctionRevertedError
          (Some \<lparr>errorName = ''Error'', args = Some [JSString not_proposed_message]\<rparr>))"

definition network_error :: error where
  "network_error = CollaboratorError ''HttpRequestError'' NoCause"

definition near_miss_error :: error where
  "near_miss_error =
     CollaboratorError ''ContractFunctionExecutionError''
       (ContractFunctionRevertedError
          (Some \<lparr>errorName = ''Error'',
                 args = Some [JSString
                   ''L2OutputOracle: cannot get output for a block that has not been proposed.'']\<rparr>))"

definition second_receipt :: TransactionReceipt where
  "second_receipt = \<lparr>transactionHash = ''0xb2'', blockNumber = 200, logs = [''log'']\<rparr>"

definition second_withdrawal :: Withdrawal where
  "second_withdrawal = \<lparr>withdrawalHash = ''0x02'', other_fields = ''0x''\<rparr>"

section \<open>Properties\<close>

subsection \<open>Auxiliary facts\<close>

lemma example_portalAddress:
  "resolve_portalAddress example_client example_parameters = Inr ''0xbe''"
  by (simp add: resolve_portalAddress_def targetChain_portal_address_def example_client_def
      example_parameters_def)

text \<open>
  Once the address is resolved and the receipt has a first withdrawal, the action is the
  decision on the four settled results of the calls it starts.
\<close>

lemma getWithdrawalStatus_settled:
  assumes "resolve_portalAddress client p = Inr a"
    and "getWithdrawals env (receipt p) = Inr (wd # rest)"
  shows "getWithdrawalStatus env client p =
    (status_of_settled
       (getL2Output env client p (blockNumber (receipt p)))
       (readContract_provenWithdrawals env client a [withdrawalHash wd])
       (readContract_finalizedWithdrawals env client a [withdrawalHash wd])
       (getTimeToFinalize env client p (withdrawalHash wd)),
     issued_calls client p a wd)"
  using assms by (simp add: getWithdrawalStatus_def)

lemma stub_simps:
  "getWithdrawals (stub_collaborators ws q1 q2 q3 q4) r = Inr ws"
  "getL2Output (stub_collaborators ws q1 q2 q3 q4) c p n = q1"
  "readContract_provenWithdrawals (stub_collaborators ws q1 q2 q3 q4) c a hs = q2"
  "readContract_finalizedWithdrawals (stub_collaborators ws q1 q2 q3 q4) c a hs = q3"
  "getTimeToFinalize (stub_collaborators ws q1 q2 q3 q4) c p h = q4"
  by (simp_all add: stub_collaborators_def)

text \<open>Address resolution does not read the receipt.\<close>

lemma resolve_portalAddress_receipt:
  "resolve_portalAddress client (p\<lparr>receipt := r\<rparr>) = resolve_portalAddress client p"
  by (simp add: resolve_portalAddress_def Let_def split: option.splits)

text \<open>The decision never returns a string outside the five literals.\<close>

lemma status_of_settled_range:
  "(\<exists>e. status_of_settled q1 q2 q3 q4 = Inl e) \<or>
   (\<exists>s. status_of_settled q1 q2 q3 q4 = Inr s \<and> s \<in> GetWithdrawalStatusReturnType)"
  by (simp add: status_of_settled_def GetWithdrawalStatusReturnType_def
      split: settled.splits prod.splits)

text \<open>
  The test of lines 132 to 134, read on the shape of the error: the cause is a
  \<^verbatim>\<open>ContractFunctionRevertedError\<close> with decoded data whose argument list starts with
  the oracle's message.
\<close>

lemma recognised_iff:
  "(instanceof_ContractFunctionRevertedError (cause_of err) \<and>
      strict_eq_string (data_args_0 (cause_of err)) not_proposed_message) =
   (\<exists>d more_args. cause_of err = ContractFunctionRevertedError (Some d) \<and>
      args d = Some (JSString
        ''L2OutputOracle: cannot get output for a block that has not been proposed''
        # more_args))"
proof (cases "cause_of err")
  case NoCause
  then show ?thesis by simp
next
  case (ContractFunctionRevertedError data)
  show ?thesis
  proof (cases data)
    case None
    with ContractFunctionRevertedError show ?thesis by simp
  next
    case (Some d)
    show ?thesis
    proof (cases "args d")
      case None
      with ContractFunctionRevertedError Some show ?thesis by simp
    next
      case as: (Some as)
      show ?thesis
      proof (cases as)
        case Nil
        with ContractFunctionRevertedError Some as show ?thesis by simp
      next
        case (Cons v vs)
        with ContractFunctionRevertedError Some as show ?thesis
          by (cases v) (simp_all add: not_proposed_message_def)
      qed
    qed
  qed
next
  case (OtherCause n)
  then show ?thesis by simp
qed

subsection \<open>The output is not proposed yet\<close>

text \<open>
  Claim C1. When the action reaches its four calls (the portal address resolves and the
  receipt has a withdrawal) and \<^verbatim>\<open>getL2Output\<close> is rejected with the recognised reason
  (a cause that is a \<^verbatim>\<open>ContractFunctionRevertedError\<close> whose first argument is the
  oracle's message), the action returns \<^verbatim>\<open>'waiting-to-prove'\<close>, whatever the settled
  results of the other three calls are: the collaborators \<open>env\<close> are arbitrary.
\<close>

theorem waiting_to_prove_if_output_not_proposed:
  assumes "resolve_portalAddress client p = Inr a"
    and "getWithdrawals env (receipt p) = Inr (wd # rest)"
    and "getL2Output env client p (blockNumber (receipt p)) = Rejected err"
    and "instanceof_ContractFunctionRevertedError (cause_of err)"
    and "strict_eq_string (data_args_0 (cause_of err)) not_proposed_message"
  shows "fst (getWithdrawalStatus env client p) = Inr ''waiting-to-prove''"
  using assms by (simp add: getWithdrawalStatus_settled status_of_settled_def)

text \<open>The other three calls are all rejected here, and the status is still returned.\<close>

theorem waiting_to_prove_if_output_not_proposed_witness:
  "fst (getWithdrawalStatus
     (stub_collaborators [example_withdrawal] (Rejected not_proposed_error)
        (Rejected network_error) (Rejected network_error) (Rejected network_error))
     example_client example_parameters) = Inr ''waiting-to-prove''"
proof -
  let ?env = "stub_collaborators [example_withdrawal] (Rejected not_proposed_error)
        (Rejected network_error) (Rejected network_error) (Rejected network_error)"
  have h2: "getWithdrawals ?env (receipt example_parameters) = Inr (example_withdrawal # [])"
    by (simp add: stub_collaborators_def)
  have h3: "getL2Output ?env example_client example_parameters
      (blockNumber (receipt example_parameters)) = Rejected not_proposed_error"
    by (simp add: stub_collaborators_def)
  have h4: "instanceof_ContractFunctionRevertedError (cause_of not_proposed_error)"
    by (simp add: not_proposed_error_def)
  have h5: "strict_eq_string (data_args_0 (cause_of not_proposed_error)) not_proposed_message"
    by (simp add: not_proposed_error_def)
  show ?thesis
    by (rule waiting_to_prove_if_output_not_proposed [OF example_portalAddress h2 h3 h4 h5])
qed

subsection \<open>A receipt without withdrawals\<close>

text \<open>
  Claim C2. When the extraction of line 96 is reached (the portal address has resolved) and
  yields no withdrawal, the action throws \<^verbatim>\<open>ReceiptContainsNoWithdrawalsError\<close> with the
  receipt's transaction hash, and none of the four calls has been started: the list of
  started calls is empty.
\<close>

theorem no_withdrawals_error_and_no_calls:
  assumes "resolve_portalAddress client p = Inr a"
    and "getWithdrawals env (receipt p) = Inr []"
  shows "getWithdrawalStatus env client p =
    (Inl (ReceiptContainsNoWithdrawalsError (transactionHash (receipt p))), [])"
  using assms by (simp add: getWithdrawalStatus_def)

theorem no_withdrawals_error_and_no_calls_witness:
  "getWithdrawalStatus
     (stub_collaborators [] (Fulfilled (L2Output ''0x0f'')) (Fulfilled (''0x0f'', 1700000000, 7))
        (Fulfilled True) (Fulfilled \<lparr>seconds = Finite 0\<rparr>))
     example_client example_parameters =
   (Inl (ReceiptContainsNoWithdrawalsError ''0xa1''), [])"
proof -
  let ?env = "stub_collaborators [] (Fulfilled (L2Output ''0x0f''))
     (Fulfilled (''0x0f'', 1700000000, 7)) (Fulfilled True) (Fulfilled \<lparr>seconds = Finite 0\<rparr>)"
  have h: "getWithdrawals ?env (receipt example_parameters) = Inr []"
    by (simp add: stub_simps)
  have "transactionHash (receipt example_parameters) = ''0xa1''"
    by (simp add: example_parameters_def example_receipt_def)
  with no_withdrawals_error_and_no_calls [OF example_portalAddress h] show ?thesis by simp
qed

subsection \<open>The statuses after a proposed output\<close>

text \<open>
  Claim C3. When \<^verbatim>\<open>getL2Output\<close> is fulfilled, \<^verbatim>\<open>provenWithdrawals\<close> is fulfilled
  with a present (non-zero) timestamp and \<^verbatim>\<open>finalizedWithdrawals\<close> is fulfilled with
  \<^verbatim>\<open>true\<close>, the action returns \<^verbatim>\<open>'finalized'\<close> for every value that
  \<^verbatim>\<open>getTimeToFinalize\<close> is fulfilled with, a positive number of seconds included: the
  finalized flag is tested before the time window.
\<close>

theorem finalized_before_time_window:
  assumes "resolve_portalAddress client p = Inr a"
    and "getWithdrawals env (receipt p) = Inr (wd # rest)"
    and "getL2Output env client p (blockNumber (receipt p)) = Fulfilled out"
    and "readContract_provenWithdrawals env client a [withdrawalHash wd] =
           Fulfilled (outputRoot, proveTimestamp, l2OutputIndex)"
    and "proveTimestamp \<noteq> 0"
    and "readContract_finalizedWithdrawals env client a [withdrawalHash wd] = Fulfilled True"
    and "getTimeToFinalize env client p (withdrawalHash wd) = Fulfilled timeToFinalize"
  shows "fst (getWithdrawalStatus env client p) = Inr ''finalized''"
  using assms by (simp add: getWithdrawalStatus_settled status_of_settled_def)

text \<open>With 120 seconds left on the window the status is still \<^verbatim>\<open>'finalized'\<close>.\<close>

theorem finalized_before_time_window_witness:
  "greater_zero (Finite 120) \<and>
   fst (getWithdrawalStatus
     (stub_collaborators [example_withdrawal] (Fulfilled (L2Output ''0x0f''))
        (Fulfilled (''0x0f'', 1700000000, 7)) (Fulfilled True)
        (Fulfilled \<lparr>seconds = Finite 120\<rparr>))
     example_client example_parameters) = Inr ''finalized''"
proof -
  let ?env = "stub_collaborators [example_withdrawal] (Fulfilled (L2Output ''0x0f''))
        (Fulfilled (''0x0f'', 1700000000, 7)) (Fulfilled True)
        (Fulfilled \<lparr>seconds = Finite 120\<rparr>)"
  have h2: "getWithdrawals ?env (receipt example_parameters) = Inr (example_withdrawal # [])"
    by (simp add: stub_simps)
  have h3: "getL2Output ?env example_client example_parameters
      (blockNumber (receipt example_parameters)) = Fulfilled (L2Output ''0x0f'')"
    by (simp add: stub_simps)
  have h4: "readContract_provenWithdrawals ?env example_client ''0xbe''
      [withdrawalHash example_withdrawal] = Fulfilled (''0x0f'', 1700000000, 7)"
    by (simp add: stub_simps)
  have h5: "(1700000000::int) \<noteq> 0" by simp
  have h6: "readContract_finalizedWithdrawals ?env example_client ''0xbe''
      [withdrawalHash example_withdrawal] = Fulfilled True"
    by (simp add: stub_simps)
  have h7: "getTimeToFinalize ?env example_client example_parameters
      (withdrawalHash example_withdrawal) = Fulfilled \<lparr>seconds = Finite 120\<rparr>"
    by (simp add: stub_simps)
  have "greater_zero (Finite 120)" by simp
  then show ?thesis
    using finalized_before_time_window [OF example_portalAddress h2 h3 h4 h5 h6 h7] by simp
qed

text \<open>
  Claim C4 as stated fails. With \<^verbatim>\<open>getL2Output\<close> fulfilled, \<^verbatim>\<open>provenWithdrawals\<close>
  fulfilled with the timestamp \<^verbatim>\<open>0n\<close> and \<^verbatim>\<open>finalizedWithdrawals\<close> fulfilled with
  \<^verbatim>\<open>false\<close>, a rejected \<^verbatim>\<open>getTimeToFinalize\<close> makes the action throw the rejection
  reason: lines 141 and 142 run before the timestamp is looked at.
\<close>

theorem ready_to_prove_not_for_rejected_time_query:
  "getL2Output
     (stub_collaborators [example_withdrawal] (Fulfilled (L2Output ''0x0f''))
        (Fulfilled (''0x00'', 0, 0)) (Fulfilled False) (Rejected network_error))
     example_client example_parameters (blockNumber (receipt example_parameters)) =
     Fulfilled (L2Output ''0x0f'') \<and>
   readContract_provenWithdrawals
     (stub_collaborators [example_withdrawal] (Fulfilled (L2Output ''0x0f''))
        (Fulfilled (''0x00'', 0, 0)) (Fulfilled False) (Rejected network_error))
     example_client ''0xbe'' [withdrawalHash example_withdrawal] = Fulfilled (''0x00'', 0, 0) \<and>
   readContract_finalizedWithdrawals
     (stub_collaborators [example_withdrawal] (Fulfilled (L2Output ''0x0f''))
        (Fulfilled (''0x00'', 0, 0)) (Fulfilled False) (Rejected network_error))
     example_client ''0xbe'' [withdrawalHash example_withdrawal] = Fulfilled False \<and>
   fst (getWithdrawalStatus
     (stub_collaborators [example_withdrawal] (Fulfilled (L2Output ''0x0f''))
        (Fulfilled (''0x00'', 0, 0)) (Fulfilled False) (Rejected network_error))
     example_client example_parameters) = Inl network_error \<and>
   fst (getWithdrawalStatus
     (stub_collaborators [example_withdrawal] (Fulfilled (L2Output ''0x0f''))
        (Fulfilled (''0x00'', 0, 0)) (Fulfilled False) (Rejected network_error))
     example_client example_parameters) \<noteq> Inr ''ready-to-prove''"
  by (simp add: getWithdrawalStatus_def example_portalAddress stub_simps status_of_settled_def)

text \<open>
  Claim C4, amended. When \<^verbatim>\<open>getL2Output\<close> is fulfilled, \<^verbatim>\<open>provenWithdrawals\<close> is
  fulfilled with an absent timestamp (\<^verbatim>\<open>0n\<close>) and \<^verbatim>\<open>finalizedWithdrawals\<close> is
  fulfilled with \<^verbatim>\<open>false\<close>, the action returns \<^verbatim>\<open>'ready-to-prove'\<close> whatever value
  \<^verbatim>\<open>getTimeToFinalize\<close> is fulfilled with, and throws the reason when
  \<^verbatim>\<open>getTimeToFinalize\<close> is rejected.
\<close>

theorem ready_to_prove_if_time_query_fulfilled:
  assumes "resolve_portalAddress client p = Inr a"
    and "getWithdrawals env (receipt p) = Inr (wd # rest)"
    and "getL2Output env client p (blockNumber (receipt p)) = Fulfilled out"
    and "readContract_provenWithdrawals env client a [withdrawalHash wd] =
           Fulfilled (outputRoot, 0, l2OutputIndex)"
    and "readContract_finalizedWithdrawals env client a [withdrawalHash wd] = Fulfilled False"
  shows "(getTimeToFinalize env client p (withdrawalHash wd) = Fulfilled timeToFinalize \<longrightarrow>
            fst (getWithdrawalStatus env client p) = Inr ''ready-to-prove'') \<and>
         (getTimeToFinalize env client p (withdrawalHash wd) = Rejected reason \<longrightarrow>
            fst (getWithdrawalStatus env client p) = Inl reason)"
  using assms by (simp add: getWithdrawalStatus_settled status_of_settled_def)

theorem ready_to_prove_if_time_query_fulfilled_witness:
  "fst (getWithdrawalStatus
     (stub_collaborators [example_withdrawal] (Fulfilled (L2Output ''0x0f''))
        (Fulfilled (''0x00'', 0, 0)) (Fulfilled False) (Fulfilled \<lparr>seconds = Finite 604800\<rparr>))
     example_client example_parameters) = Inr ''ready-to-prove'' \<and>
   fst (getWithdrawalStatus
     (stub_collaborators [example_withdrawal] (Fulfilled (L2Output ''0x0f''))
        (Fulfilled (''0x00'', 0, 0)) (Fulfilled False) (Rejected network_error))
     example_client example_parameters) = Inl network_error"
proof -
  let ?e = "\<lambda>q4. stub_collaborators [example_withdrawal] (Fulfilled (L2Output ''0x0f''))
        (Fulfilled (''0x00'', 0, 0)) (Fulfilled False) q4"
  have a: "fst (getWithdrawalStatus (?e (Fulfilled \<lparr>seconds = Finite 604800\<rparr>))
      example_client example_parameters) = Inr ''ready-to-prove''"
    using ready_to_prove_if_time_query_fulfilled
      [where client = example_client and p = example_parameters and a = "''0xbe''"
        and env = "?e (Fulfilled \<lparr>seconds = Finite 604800\<rparr>)" and wd = example_withdrawal
        and rest = "[]" and out = "L2Output ''0x0f''" and outputRoot = "''0x00''"
        and l2OutputIndex = 0 and timeToFinalize = "\<lparr>seconds = Finite 604800\<rparr>"]
      example_portalAddress
    by (simp add: stub_simps)
  have b: "fst (getWithdrawalStatus (?e (Rejected network_error))
      example_client example_parameters) = Inl network_error"
    using ready_to_prove_if_time_query_fulfilled
      [where client = example_client and p = example_parameters and a = "''0xbe''"
        and env = "?e (Rejected network_error)" and wd = example_withdrawal
        and rest = "[]" and out = "L2Output ''0x0f''" and outputRoot = "''0x00''"
        and l2OutputIndex = 0 and reason = network_error]
      example_portalAddress
    by (simp add: stub_simps)
  from a b show ?thesis by simp
qed

text \<open>
  Claim C5. When all four calls are fulfilled, the proof timestamp is present (non-zero) and
  the finalized flag is \<^verbatim>\<open>false\<close>, the action returns \<^verbatim>\<open>'waiting-to-finalize'\<close> if
  the seconds of \<^verbatim>\<open>getTimeToFinalize\<close> are greater than 0 and \<^verbatim>\<open>'ready-to-finalize'\<close>
  if they are less than or equal to 0, exactly 0 included.
\<close>

theorem finalize_window_threshold:
  assumes "resolve_portalAddress client p = Inr a"
    and "getWithdrawals env (receipt p) = Inr (wd # rest)"
    and "getL2Output env client p (blockNumber (receipt p)) = Fulfilled out"
    and "readContract_provenWithdrawals env client a [withdrawalHash wd] =
           Fulfilled (outputRoot, proveTimestamp, l2OutputIndex)"
    and "proveTimestamp \<noteq> 0"
    and "readContract_finalizedWithdrawals env client a [withdrawalHash wd] = Fulfilled False"
    and "getTimeToFinalize env client p (withdrawalHash wd) = Fulfilled timeToFinalize"
  shows "(greater_zero (seconds timeToFinalize) \<longrightarrow>
           fst (getWithdrawalStatus env client p) = Inr ''waiting-to-finalize'') \<and>
         (less_eq_zero (seconds timeToFinalize) \<longrightarrow>
           fst (getWithdrawalStatus env client p) = Inr ''ready-to-finalize'')"
proof -
  have "\<not> (greater_zero n \<and> less_eq_zero n)" for n
    by (cases n) auto
  with assms show ?thesis
    by (auto simp add: getWithdrawalStatus_settled status_of_settled_def)
qed

text \<open>A window of 120 seconds and a window of exactly 0 seconds.\<close>

theorem finalize_window_threshold_witness:
  "fst (getWithdrawalStatus
     (stub_collaborators [example_withdrawal] (Fulfilled (L2Output ''0x0f''))
        (Fulfilled (''0x0f'', 1700000000, 7)) (Fulfilled False)
        (Fulfilled \<lparr>seconds = Finite 120\<rparr>))
     example_client example_parameters) = Inr ''waiting-to-finalize'' \<and>
   fst (getWithdrawalStatus
     (stub_collaborators [example_withdrawal] (Fulfilled (L2Output ''0x0f''))
        (Fulfilled (''0x0f'', 1700000000, 7)) (Fulfilled False)
        (Fulfilled \<lparr>seconds = Finite 0\<rparr>))
     example_client example_parameters) = Inr ''ready-to-finalize''"
proof -
  have pos: "greater_zero (seconds \<lparr>seconds = Finite 120\<rparr>)" by simp
  have zero: "less_eq_zero (seconds \<lparr>seconds = Finite 0\<rparr>)" by simp
  have ts: "(1700000000::int) \<noteq> 0" by simp
  let ?e = "\<lambda>n. stub_collaborators [example_withdrawal] (Fulfilled (L2Output ''0x0f''))
        (Fulfilled (''0x0f'', 1700000000, 7)) (Fulfilled False) (Fulfilled \<lparr>seconds = Finite n\<rparr>)"
  have a: "fst (getWithdrawalStatus (?e 120) example_client example_parameters) =
      Inr ''waiting-to-finalize''"
    using finalize_window_threshold
      [of example_client example_parameters "''0xbe''" "?e 120" example_withdrawal "[]"
        "L2Output ''0x0f''" "''0x0f''" 1700000000 7 "\<lparr>seconds = Finite 120\<rparr>"]
      example_portalAddress pos ts
    by (simp add: stub_simps)
  have b: "fst (getWithdrawalStatus (?e 0) example_client example_parameters) =
      Inr ''ready-to-finalize''"
    using finalize_window_threshold
      [of example_client example_parameters "''0xbe''" "?e 0" example_withdrawal "[]"
        "L2Output ''0x0f''" "''0x0f''" 1700000000 7 "\<lparr>seconds = Finite 0\<rparr>"]
      example_portalAddress zero ts
    by (simp add: stub_simps)
  from a b show ?thesis by simp
qed

subsection \<open>Rejections that are thrown\<close>

text \<open>
  Claim C6. Every rejection other than the recognised one of \<^verbatim>\<open>getL2Output\<close> is thrown
  as it is. A rejection of \<^verbatim>\<open>getL2Output\<close> that fails the test of lines 132 to 134 is
  the error of the action, whatever the other three calls settle to; and when
  \<^verbatim>\<open>getL2Output\<close> is fulfilled and one of the other three calls is rejected, the error
  of the action is the unchanged reason of a rejected call.
\<close>

theorem other_rejections_thrown_unchanged:
  assumes "resolve_portalAddress client p = Inr a"
    and "getWithdrawals env (receipt p) = Inr (wd # rest)"
  shows "(getL2Output env client p (blockNumber (receipt p)) = Rejected err \<and>
            \<not> (instanceof_ContractFunctionRevertedError (cause_of err) \<and>
               strict_eq_string (data_args_0 (cause_of err)) not_proposed_message)
            \<longrightarrow> fst (getWithdrawalStatus env client p) = Inl err) \<and>
         (getL2Output env client p (blockNumber (receipt p)) = Fulfilled out \<and>
          ((\<exists>e. readContract_provenWithdrawals env client a [withdrawalHash wd] = Rejected e) \<or>
           (\<exists>e. readContract_finalizedWithdrawals env client a [withdrawalHash wd] = Rejected e) \<or>
           (\<exists>e. getTimeToFinalize env client p (withdrawalHash wd) = Rejected e))
          \<longrightarrow> (\<exists>e. fst (getWithdrawalStatus env client p) = Inl e \<and>
                 (readContract_provenWithdrawals env client a [withdrawalHash wd] = Rejected e \<or>
                  readContract_finalizedWithdrawals env client a [withdrawalHash wd] = Rejected e \<or>
                  getTimeToFinalize env client p (withdrawalHash wd) = Rejected e)))"
  unfolding getWithdrawalStatus_settled [OF assms]
  by (auto simp add: status_of_settled_def split: settled.splits prod.splits)

text \<open>
  A network error of \<^verbatim>\<open>getL2Output\<close> is thrown although the other three calls are
  fulfilled, and a network error of \<^verbatim>\<open>finalizedWithdrawals\<close> alone is thrown.
\<close>

theorem other_rejections_thrown_unchanged_witness:
  "fst (getWithdrawalStatus
     (stub_collaborators [example_withdrawal] (Rejected network_error)
        (Fulfilled (''0x0f'', 1700000000, 7)) (Fulfilled True) (Fulfilled \<lparr>seconds = Finite 0\<rparr>))
     example_client example_parameters) = Inl network_error \<and>
   fst (getWithdrawalStatus
     (stub_collaborators [example_withdrawal] (Fulfilled (L2Output ''0x0f''))
        (Fulfilled (''0x0f'', 1700000000, 7)) (Rejected network_error)
        (Fulfilled \<lparr>seconds = Finite 0\<rparr>))
     example_client example_parameters) = Inl network_error"
proof -
  let ?e1 = "stub_collaborators [example_withdrawal] (Rejected network_error)
        (Fulfilled (''0x0f'', 1700000000, 7)) (Fulfilled True) (Fulfilled \<lparr>seconds = Finite 0\<rparr>)"
  let ?e2 = "stub_collaborators [example_withdrawal] (Fulfilled (L2Output ''0x0f''))
        (Fulfilled (''0x0f'', 1700000000, 7)) (Rejected network_error)
        (Fulfilled \<lparr>seconds = Finite 0\<rparr>)"
  have a: "fst (getWithdrawalStatus ?e1 example_client example_parameters) = Inl network_error"
    using other_rejections_thrown_unchanged
      [where client = example_client and p = example_parameters and a = "''0xbe''"
        and env = ?e1 and wd = example_withdrawal and rest = "[]" and err = network_error]
      example_portalAddress
    by (simp add: stub_simps network_error_def)
  have b: "fst (getWithdrawalStatus ?e2 example_client example_parameters) = Inl network_error"
    using other_rejections_thrown_unchanged
      [where client = example_client and p = example_parameters and a = "''0xbe''"
        and env = ?e2 and wd = example_withdrawal and rest = "[]"
        and out = "L2Output ''0x0f''"]
      example_portalAddress
    by (simp add: stub_simps)
  from a b show ?thesis by simp
qed

text \<open>
  Claim C9. When \<^verbatim>\<open>getL2Output\<close> is fulfilled and several of the other three calls are
  rejected, the reason thrown is chosen in the order \<^verbatim>\<open>provenWithdrawals\<close>,
  \<^verbatim>\<open>finalizedWithdrawals\<close>, \<^verbatim>\<open>getTimeToFinalize\<close>: the first one if it is rejected,
  otherwise the second one if it is rejected, otherwise the third one.
\<close>

theorem rejection_priority:
  assumes "resolve_portalAddress client p = Inr a"
    and "getWithdrawals env (receipt p) = Inr (wd # rest)"
    and "getL2Output env client p (blockNumber (receipt p)) = Fulfilled out"
  shows "(readContract_provenWithdrawals env client a [withdrawalHash wd] = Rejected e2
            \<longrightarrow> fst (getWithdrawalStatus env client p) = Inl e2) \<and>
         (readContract_provenWithdrawals env client a [withdrawalHash wd] = Fulfilled v2 \<and>
          readContract_finalizedWithdrawals env client a [withdrawalHash wd] = Rejected e3
            \<longrightarrow> fst (getWithdrawalStatus env client p) = Inl e3) \<and>
         (readContract_provenWithdrawals env client a [withdrawalHash wd] = Fulfilled v2 \<and>
          readContract_finalizedWithdrawals env client a [withdrawalHash wd] = Fulfilled v3 \<and>
          getTimeToFinalize env client p (withdrawalHash wd) = Rejected e4
            \<longrightarrow> fst (getWithdrawalStatus env client p) = Inl e4)"
  unfolding getWithdrawalStatus_settled [OF assms(1,2)] assms(3)
  by (cases v2) (simp add: status_of_settled_def)

text \<open>
  Three runs with three different reasons: all three calls rejected, the last two rejected,
  the last one rejected.
\<close>

theorem rejection_priority_witness:
  "fst (getWithdrawalStatus
     (stub_collaborators [example_withdrawal] (Fulfilled (L2Output ''0x0f''))
        (Rejected (CollaboratorError ''proven'' NoCause))
        (Rejected (CollaboratorError ''finalized'' NoCause))
        (Rejected (CollaboratorError ''timeToFinalize'' NoCause)))
     example_client example_parameters) = Inl (CollaboratorError ''proven'' NoCause) \<and>
   fst (getWithdrawalStatus
     (stub_collaborators [example_withdrawal] (Fulfilled (L2Output ''0x0f''))
        (Fulfilled (''0x0f'', 1700000000, 7))
        (Rejected (CollaboratorError ''finalized'' NoCause))
        (Rejected (CollaboratorError ''timeToFinalize'' NoCause)))
     example_client example_parameters) = Inl (CollaboratorError ''finalized'' NoCause) \<and>
   fst (getWithdrawalStatus
     (stub_collaborators [example_withdrawal] (Fulfilled (L2Output ''0x0f''))
        (Fulfilled (''0x0f'', 1700000000, 7))
        (Fulfilled False)
        (Rejected (CollaboratorError ''timeToFinalize'' NoCause)))
     example_client example_parameters) = Inl (CollaboratorError ''timeToFinalize'' NoCause)"
proof -
  let ?e = "\<lambda>q2 q3. stub_collaborators [example_withdrawal] (Fulfilled (L2Output ''0x0f''))
        q2 q3 (Rejected (CollaboratorError ''timeToFinalize'' NoCause))"
  let ?r2 = "Rejected (CollaboratorError ''proven'' NoCause)"
  let ?r3 = "Rejected (CollaboratorError ''finalized'' NoCause)"
  let ?f2 = "Fulfilled (''0x0f'', 1700000000::int, 7::int)"
  have a: "fst (getWithdrawalStatus (?e ?r2 ?r3) example_client example_parameters) =
      Inl (CollaboratorError ''proven'' NoCause)"
    using rejection_priority
      [where client = example_client and p = example_parameters and a = "''0xbe''"
        and env = "?e ?r2 ?r3" and wd = example_withdrawal and rest = "[]"
        and out = "L2Output ''0x0f''" and ?e2.0 = "CollaboratorError ''proven'' NoCause"]
      example_portalAddress
    by (simp add: stub_simps)
  have b: "fst (getWithdrawalStatus (?e ?f2 ?r3) example_client example_parameters) =
      Inl (CollaboratorError ''finalized'' NoCause)"
    using rejection_priority
      [where client = example_client and p = example_parameters and a = "''0xbe''"
        and env = "?e ?f2 ?r3" and wd = example_withdrawal and rest = "[]"
        and out = "L2Output ''0x0f''" and ?v2.0 = "(''0x0f'', 1700000000, 7)"
        and ?e3.0 = "CollaboratorError ''finalized'' NoCause"]
      example_portalAddress
    by (simp add: stub_simps)
  have c: "fst (getWithdrawalStatus (?e ?f2 (Fulfilled False)) example_client example_parameters) =
      Inl (CollaboratorError ''timeToFinalize'' NoCause)"
    using rejection_priority
      [where client = example_client and p = example_parameters and a = "''0xbe''"
        and env = "?e ?f2 (Fulfilled False)" and wd = example_withdrawal and rest = "[]"
        and out = "L2Output ''0x0f''" and ?v2.0 = "(''0x0f'', 1700000000, 7)"
        and ?v3.0 = False and ?e4.0 = "CollaboratorError ''timeToFinalize'' NoCause"]
      example_portalAddress
    by (simp add: stub_simps)
  from a b c show ?thesis by simp
qed

text \<open>
  Claim C8. A rejection of \<^verbatim>\<open>getL2Output\<close> gives \<^verbatim>\<open>'waiting-to-prove'\<close> if and only
  if its cause is a \<^verbatim>\<open>ContractFunctionRevertedError\<close> whose first decoded argument is
  exactly the string of the source; a rejection that misses the class or the string is thrown
  as the error of the action.
\<close>

theorem not_proposed_recognised_iff:
  assumes "resolve_portalAddress client p = Inr a"
    and "getWithdrawals env (receipt p) = Inr (wd # rest)"
    and "getL2Output env client p (blockNumber (receipt p)) = Rejected err"
  shows "((fst (getWithdrawalStatus env client p) = Inr ''waiting-to-prove'') =
          (\<exists>d more_args. cause_of err = ContractFunctionRevertedError (Some d) \<and>
             args d = Some (JSString
               ''L2OutputOracle: cannot get output for a block that has not been proposed''
               # more_args))) \<and>
         (\<not> (\<exists>d more_args. cause_of err = ContractFunctionRevertedError (Some d) \<and>
             args d = Some (JSString
               ''L2OutputOracle: cannot get output for a block that has not been proposed''
               # more_args)) \<longrightarrow>
          fst (getWithdrawalStatus env client p) = Inl err)"
proof -
  have "fst (getWithdrawalStatus env client p) =
      (if instanceof_ContractFunctionRevertedError (cause_of err) \<and>
          strict_eq_string (data_args_0 (cause_of err)) not_proposed_message
       then Inr ''waiting-to-prove'' else Inl err)"
    using assms by (simp add: getWithdrawalStatus_settled status_of_settled_def)
  then show ?thesis
    unfolding recognised_iff by simp
qed

text \<open>
  The oracle's message is recognised; the same message with a full stop appended is not, and
  the rejection is thrown.
\<close>

theorem not_proposed_recognised_iff_witness:
  "fst (getWithdrawalStatus
     (stub_collaborators [example_withdrawal] (Rejected not_proposed_error)
        (Fulfilled (''0x00'', 0, 0)) (Fulfilled False) (Fulfilled \<lparr>seconds = Finite 0\<rparr>))
     example_client example_parameters) = Inr ''waiting-to-prove'' \<and>
   fst (getWithdrawalStatus
     (stub_collaborators [example_withdrawal] (Rejected near_miss_error)
        (Fulfilled (''0x00'', 0, 0)) (Fulfilled False) (Fulfilled \<lparr>seconds = Finite 0\<rparr>))
     example_client example_parameters) = Inl near_miss_error"
proof -
  let ?e = "\<lambda>err. stub_collaborators [example_withdrawal] (Rejected err)
        (Fulfilled (''0x00'', 0, 0)) (Fulfilled False) (Fulfilled \<lparr>seconds = Finite 0\<rparr>)"
  have a: "fst (getWithdrawalStatus (?e not_proposed_error) example_client example_parameters) =
      Inr ''waiting-to-prove''"
    using not_proposed_recognised_iff
      [of example_client example_parameters "''0xbe''" "?e not_proposed_error"
        example_withdrawal "[]" not_proposed_error] example_portalAddress
    by (simp add: stub_simps not_proposed_error_def not_proposed_message_def)
  have b: "fst (getWithdrawalStatus (?e near_miss_error) example_client example_parameters) =
      Inl near_miss_error"
    using not_proposed_recognised_iff
      [of example_client example_parameters "''0xbe''" "?e near_miss_error"
        example_withdrawal "[]" near_miss_error] example_portalAddress
    by (simp add: stub_simps near_miss_error_def)
  from a b show ?thesis by simp
qed

subsection \<open>The range of the action\<close>

text \<open>
  Claim C7. For every client, every parameters and every behaviour of the collaborators the
  action either throws an error or returns one of the five strings
  \<^verbatim>\<open>'waiting-to-prove'\<close>, \<^verbatim>\<open>'ready-to-prove'\<close>, \<^verbatim>\<open>'waiting-to-finalize'\<close>,
  \<^verbatim>\<open>'ready-to-finalize'\<close>, \<^verbatim>\<open>'finalized'\<close>; it returns no other string.
\<close>

theorem result_is_error_or_one_of_five:
  "(\<exists>e. fst (getWithdrawalStatus env client p) = Inl e) \<or>
   (\<exists>s. fst (getWithdrawalStatus env client p) = Inr s \<and>
      s \<in> {''waiting-to-prove'', ''ready-to-prove'', ''waiting-to-finalize'',
           ''ready-to-finalize'', ''finalized''})"
proof (cases "resolve_portalAddress client p")
  case (Inl e)
  then show ?thesis by (simp add: getWithdrawalStatus_def)
next
  case (Inr a)
  show ?thesis
  proof (cases "getWithdrawals env (receipt p)")
    case (Inl e)
    with Inr show ?thesis by (simp add: getWithdrawalStatus_def)
  next
    case ws: (Inr ws)
    show ?thesis
    proof (cases ws)
      case Nil
      with Inr ws show ?thesis by (simp add: getWithdrawalStatus_def)
    next
      case (Cons wd rest)
      with Inr ws show ?thesis
        using status_of_settled_range
        by (simp add: getWithdrawalStatus_settled GetWithdrawalStatusReturnType_def)
    qed
  qed
qed

subsection \<open>Only the first withdrawal is read\<close>

text \<open>
  Claim C10. Take two receipts whose extracted withdrawals start with the same withdrawal,
  and let the calls settle alike for both (\<^verbatim>\<open>getL2Output\<close> and \<^verbatim>\<open>getTimeToFinalize\<close>
  receive the receipt and must be assumed to; the two \<^verbatim>\<open>readContract\<close> calls receive
  the portal address and the first withdrawal's hash only). Then the action returns the same
  status or throws the same error for both: the later withdrawals have no influence.
\<close>

theorem only_first_withdrawal_read:
  assumes "getWithdrawals env r1 = Inr (wd # rest1)"
    and "getWithdrawals env r2 = Inr (wd # rest2)"
    and "getL2Output env client (p\<lparr>receipt := r1\<rparr>) (blockNumber r1) =
         getL2Output env client (p\<lparr>receipt := r2\<rparr>) (blockNumber r2)"
    and "getTimeToFinalize env client (p\<lparr>receipt := r1\<rparr>) (withdrawalHash wd) =
         getTimeToFinalize env client (p\<lparr>receipt := r2\<rparr>) (withdrawalHash wd)"
  shows "fst (getWithdrawalStatus env client (p\<lparr>receipt := r1\<rparr>)) =
         fst (getWithdrawalStatus env client (p\<lparr>receipt := r2\<rparr>))"
proof (cases "resolve_portalAddress client p")
  case (Inl e)
  then show ?thesis
    by (simp add: getWithdrawalStatus_def resolve_portalAddress_receipt)
next
  case (Inr a)
  have a1: "resolve_portalAddress client (p\<lparr>receipt := r1\<rparr>) = Inr a"
    and a2: "resolve_portalAddress client (p\<lparr>receipt := r2\<rparr>) = Inr a"
    using Inr by (simp_all add: resolve_portalAddress_receipt)
  have w1: "getWithdrawals env (receipt (p\<lparr>receipt := r1\<rparr>)) = Inr (wd # rest1)"
    and w2: "getWithdrawals env (receipt (p\<lparr>receipt := r2\<rparr>)) = Inr (wd # rest2)"
    using assms(1,2) by simp_all
  show ?thesis
    unfolding getWithdrawalStatus_settled [OF a1 w1] getWithdrawalStatus_settled [OF a2 w2]
    using assms(3,4) by simp
qed

text \<open>
  One receipt with the sample withdrawal alone, another receipt with a second withdrawal
  after it.
\<close>

theorem only_first_withdrawal_read_witness:
  "fst (getWithdrawalStatus
         ((stub_collaborators [] (Fulfilled (L2Output ''0x0f''))
             (Fulfilled (''0x0f'', 1700000000, 7)) (Fulfilled False)
             (Fulfilled \<lparr>seconds = Finite 120\<rparr>))
           \<lparr>getWithdrawals := (\<lambda>r. if r = example_receipt then Inr [example_withdrawal]
                  else Inr [example_withdrawal, second_withdrawal])\<rparr>)
         example_client (example_parameters\<lparr>receipt := example_receipt\<rparr>)) =
   fst (getWithdrawalStatus
         ((stub_collaborators [] (Fulfilled (L2Output ''0x0f''))
             (Fulfilled (''0x0f'', 1700000000, 7)) (Fulfilled False)
             (Fulfilled \<lparr>seconds = Finite 120\<rparr>))
           \<lparr>getWithdrawals := (\<lambda>r. if r = example_receipt then Inr [example_withdrawal]
                  else Inr [example_withdrawal, second_withdrawal])\<rparr>)
         example_client (example_parameters\<lparr>receipt := second_receipt\<rparr>)) \<and>
   fst (getWithdrawalStatus
         ((stub_collaborators [] (Fulfilled (L2Output ''0x0f''))
             (Fulfilled (''0x0f'', 1700000000, 7)) (Fulfilled False)
             (Fulfilled \<lparr>seconds = Finite 120\<rparr>))
           \<lparr>getWithdrawals := (\<lambda>r. if r = example_receipt then Inr [example_withdrawal]
                  else Inr [example_withdrawal, second_withdrawal])\<rparr>)
         example_client (example_parameters\<lparr>receipt := second_receipt\<rparr>)) =
     Inr ''waiting-to-finalize''"
proof -
  let ?env = "(stub_collaborators [] (Fulfilled (L2Output ''0x0f''))
             (Fulfilled (''0x0f'', 1700000000, 7)) (Fulfilled False)
             (Fulfilled \<lparr>seconds = Finite 120\<rparr>))
           \<lparr>getWithdrawals := (\<lambda>r. if r = example_receipt then Inr [example_withdrawal]
                  else Inr [example_withdrawal, second_withdrawal])\<rparr>"
  have h1: "getWithdrawals ?env example_receipt = Inr (example_withdrawal # [])"
    by simp
  have h2: "getWithdrawals ?env second_receipt = Inr (example_withdrawal # [second_withdrawal])"
    by (simp add: example_receipt_def second_receipt_def)
  have same: "fst (getWithdrawalStatus ?env example_client
        (example_parameters\<lparr>receipt := example_receipt\<rparr>)) =
      fst (getWithdrawalStatus ?env example_client
        (example_parameters\<lparr>receipt := second_receipt\<rparr>))"
    by (rule only_first_withdrawal_read [OF h1 h2]) (simp_all add: stub_collaborators_def)
  have a: "resolve_portalAddress example_client
      (example_parameters\<lparr>receipt := second_receipt\<rparr>) = Inr ''0xbe''"
    by (simp add: resolve_portalAddress_receipt example_portalAddress)
  have w: "getWithdrawals ?env (receipt (example_parameters\<lparr>receipt := second_receipt\<rparr>)) =
      Inr (example_withdrawal # [second_withdrawal])"
    using h2 by simp
  have "fst (getWithdrawalStatus ?env example_client
        (example_parameters\<lparr>receipt := second_receipt\<rparr>)) = Inr ''waiting-to-finalize''"
    unfolding getWithdrawalStatus_settled [OF a w]
    by (simp add: stub_collaborators_def status_of_settled_def)
  with same show ?thesis by simp
qed

end
